theory Spec2Isabelle
  imports Complex_Main "HOL-Library.Word"
begin

section \<open>The block generators of shared/testutil/block.go\<close>

text \<open>
  The generators of \<^verbatim>\<open>shared/testutil/block.go\<close> are embedded as HOL functions.
  Go's \<^verbatim>\<open>uint64\<close> is \<open>64 word\<close> (addition wraps), a byte slice is a list of bytes.
  A call that ends the test (\<^verbatim>\<open>t.Fatal\<close>, \<^verbatim>\<open>t.Fatalf\<close>) or a run-time panic
  (an integer division by zero, an index out of range) is the left summand of the
  result: after it the Go function does not return.
\<close>

type_synonym uint64 = "64 word"
type_synonym bytes = "8 word list"
type_synonym err = string
type_synonym SecretKey = bytes
type_synonym ForkData = bytes
type_synonym Eth1DataT = bytes
type_synonym Deposit = bytes

datatype abort =
  Fatal err | DivideByZero | IndexOutOfRange | SliceBoundsOutOfRange | MakeSliceLenOutOfRange

subsection \<open>Protocol messages\<close>

text \<open>Only the fields that block.go reads or writes are listed; a field that a
  composite literal leaves out holds Go's zero value (0, the empty slice).\<close>

record BeaconBlockHeader =
  header_Slot :: uint64
  header_StateRoot :: bytes
  header_BodyRoot :: bytes
  header_Signature :: bytes

record ProposerSlashing =
  ProposerIndex :: uint64
  Header_1 :: BeaconBlockHeader
  Header_2 :: BeaconBlockHeader

record Checkpoint =
  checkpoint_Epoch :: uint64
  checkpoint_Root :: bytes

record AttestationData =
  data_Slot :: uint64
  data_Index :: uint64
  data_BeaconBlockRoot :: bytes
  data_Source :: Checkpoint
  data_Target :: Checkpoint

record Attestation =
  att_AggregationBits :: "bool list"
  att_Data :: AttestationData
  att_Signature :: bytes

record IndexedAttestation =
  indexed_Indices :: "uint64 list"
  indexed_Data :: AttestationData
  indexed_Signature :: bytes

record AttesterSlashing =
  Attestation_1 :: IndexedAttestation
  Attestation_2 :: IndexedAttestation

record VoluntaryExit =
  exit_Epoch :: uint64
  exit_ValidatorIndex :: uint64
  exit_Signature :: bytes

record BeaconBlockBody =
  body_Eth1Data :: Eth1DataT
  body_RandaoReveal :: bytes
  body_ProposerSlashings :: "ProposerSlashing option list"
  body_AttesterSlashings :: "AttesterSlashing option list"
  body_Attestations :: "Attestation option list"
  body_VoluntaryExits :: "VoluntaryExit option list"
  body_Deposits :: "Deposit list"

record BeaconBlock =
  block_Slot :: uint64
  block_ParentRoot :: bytes
  block_StateRoot :: bytes
  block_Body :: BeaconBlockBody
  block_Signature :: bytes

text \<open>The beacon state: the fields block.go touches. A state with more fields is an
  extension of this record.\<close>

record BeaconState =
  state_Slot :: uint64
  state_Fork :: ForkData
  state_LatestBlockHeader :: BeaconBlockHeader
  state_Eth1Data :: Eth1DataT
  state_Eth1DepositIndex :: uint64
  state_CurrentJustifiedCheckpoint :: Checkpoint

record BlockGenConfig =
  MaxProposerSlashings :: uint64
  MaxAttesterSlashings :: uint64
  MaxAttestations :: uint64
  MaxDeposits :: uint64
  MaxVoluntaryExits :: uint64
  Signatures :: bool

subsection \<open>Functions of other packages\<close>

text \<open>
  The functions block.go calls in other packages (\<^verbatim>\<open>helpers\<close>, \<^verbatim>\<open>ssz\<close>,
  \<^verbatim>\<open>state\<close>, \<^verbatim>\<open>blocks\<close>, \<^verbatim>\<open>bls\<close>, \<^verbatim>\<open>params\<close>, \<^verbatim>\<open>math/rand\<close>)
  and the functions of this package that are defined in other files
  (\<^verbatim>\<open>CreateRandaoReveal\<close>, \<^verbatim>\<open>SetupInitialDeposits\<close>, \<^verbatim>\<open>GenerateEth1Data\<close>)
  are parameters of the model, collected in one record. A function that returns
  \<^verbatim>\<open>(x, error)\<close> returns a sum; each is a function of the state's value and
  leaves the state it is given as it is. \<open>rand_Uint64 k\<close> is the value of the
  \<open>k\<close>-th call of \<^verbatim>\<open>rand.Uint64()\<close>; the generators thread the number of
  calls made so far. \<open>SetupInitialDeposits\<close> and \<open>GenerateEth1Data\<close> take the
  test handle and may end the test themselves. \<open>makeLimit\<close> is the greatest
  length for which the run-time serves \<^verbatim>\<open>make\<close> of a slice of pointers: above the
  platform's bound \<^verbatim>\<open>make\<close> panics (\<^verbatim>\<open>makeslice: len out of range\<close>), and a
  run-time that cannot find the memory ends the program. \<open>attestationRounds\<close> stands for
  lines 334 to 366 of GenerateAttestations, which name an identifier
  (\<^verbatim>\<open>dataRoot\<close>) that the function does not declare and so have no translation;
  \<open>GenerateAttestations_aborts\<close> below shows that they are never reached.
\<close>

record 'a helpers =
  CurrentEpoch :: "'a BeaconState_scheme \<Rightarrow> uint64"
  PrevEpoch :: "'a BeaconState_scheme \<Rightarrow> uint64"
  StartSlot :: "uint64 \<Rightarrow> uint64"
  ActiveValidatorCount :: "'a BeaconState_scheme \<Rightarrow> uint64 \<Rightarrow> err + uint64"
  BeaconCommittee :: "'a BeaconState_scheme \<Rightarrow> uint64 \<Rightarrow> uint64 \<Rightarrow> err + uint64 list"
  BeaconProposerIndex :: "'a BeaconState_scheme \<Rightarrow> err + uint64"
  BlockRootAtSlot :: "'a BeaconState_scheme \<Rightarrow> uint64 \<Rightarrow> err + bytes"
  CommitteeCountAtSlot :: "'a BeaconState_scheme \<Rightarrow> uint64 \<Rightarrow> err + uint64"
  Domain :: "ForkData \<Rightarrow> uint64 \<Rightarrow> bytes \<Rightarrow> uint64"
  DomainBeaconProposer :: bytes
  DomainBeaconAttester :: bytes
  DomainVoluntaryExit :: bytes
  MaxCommitteesPerSlot :: uint64
  ZeroHash :: bytes
  HashTreeRoot_state :: "'a BeaconState_scheme \<Rightarrow> err + bytes"
  HashTreeRoot_data :: "AttestationData \<Rightarrow> bool \<Rightarrow> err + bytes"
  SigningRoot_header :: "BeaconBlockHeader \<Rightarrow> err + bytes"
  SigningRoot_block :: "BeaconBlock \<Rightarrow> err + bytes"
  SigningRoot_exit :: "VoluntaryExit \<Rightarrow> err + bytes"
  Sign :: "SecretKey \<Rightarrow> bytes \<Rightarrow> uint64 \<Rightarrow> bytes"
  AggregateSignatures :: "bytes list \<Rightarrow> bytes"
  ConvertToIndexed :: "'a BeaconState_scheme \<Rightarrow> Attestation \<Rightarrow> err + IndexedAttestation"
  ProcessSlots :: "'a BeaconState_scheme \<Rightarrow> uint64 \<Rightarrow> err + 'a BeaconState_scheme"
  CalculateStateRoot :: "'a BeaconState_scheme \<Rightarrow> BeaconBlock \<Rightarrow> err + 'a BeaconState_scheme"
  CreateRandaoReveal ::
    "'a BeaconState_scheme \<Rightarrow> uint64 \<Rightarrow> SecretKey list \<Rightarrow> err + bytes"
  SetupInitialDeposits :: "uint64 \<Rightarrow> abort + Deposit list"
  GenerateEth1Data :: "Deposit list \<Rightarrow> abort + Eth1DataT"
  rand_Uint64 :: "nat \<Rightarrow> uint64"
  makeLimit :: nat
  attestationRounds ::
    "'a BeaconState_scheme \<Rightarrow> SecretKey list \<Rightarrow> BlockGenConfig \<Rightarrow> Attestation option list
       \<Rightarrow> bytes \<Rightarrow> bytes \<Rightarrow> uint64 \<Rightarrow> real \<Rightarrow> abort + Attestation option list"

subsection \<open>Go idioms\<close>

text \<open>\<^verbatim>\<open>x, err := f(...); if err != nil { t.Fatal(err) }\<close>, then the rest with \<open>x\<close>.\<close>

definition must :: "err + 'x \<Rightarrow> ('x \<Rightarrow> abort + 'y) \<Rightarrow> abort + 'y" where
  "must r k = (case r of Inl e \<Rightarrow> Inl (Fatal e) | Inr x \<Rightarrow> k x)"

text \<open>A call of a function of this package that may itself end the test.\<close>

definition next_step :: "abort + 'x \<Rightarrow> ('x \<Rightarrow> abort + 'y) \<Rightarrow> abort + 'y" where
  "next_step r k = (case r of Inl a \<Rightarrow> Inl a | Inr x \<Rightarrow> k x)"

text \<open>\<^verbatim>\<open>xs[i]\<close>: a panic when \<open>i\<close> is not below \<^verbatim>\<open>len(xs)\<close>.\<close>

definition index :: "'x list \<Rightarrow> uint64 \<Rightarrow> ('x \<Rightarrow> abort + 'y) \<Rightarrow> abort + 'y" where
  "index xs i k = (if unat i < length xs then k (xs ! unat i) else Inl IndexOutOfRange)"

text \<open>\<^verbatim>\<open>make([]*T, n)\<close> with a uint64 length: a slice of \<open>n\<close> nil pointers
  (\<open>None\<close>), or a panic when the length is above what the run-time serves.\<close>

definition make_slice ::
  "'a helpers \<Rightarrow> uint64 \<Rightarrow> ('x option list \<Rightarrow> abort + 'y) \<Rightarrow> abort + 'y" where
  "make_slice H n k =
     (if unat n \<le> makeLimit H then k (replicate (unat n) None)
      else Inl MakeSliceLenOutOfRange)"

text \<open>\<^verbatim>\<open>a % b\<close> on uint64: a panic when \<open>b\<close> is 0.\<close>

definition remainder :: "uint64 \<Rightarrow> uint64 \<Rightarrow> (uint64 \<Rightarrow> abort + 'y) \<Rightarrow> abort + 'y" where
  "remainder a b k = (if b = 0 then Inl DivideByZero else k (a mod b))"

subsection \<open>randValIndex\<close>

text \<open>Returns Go's pair \<^verbatim>\<open>(uint64, error)\<close> as a sum, with the number of random
  draws made; the remainder panics when no validator is active.\<close>

definition randValIndex ::
  "'a helpers \<Rightarrow> 'a BeaconState_scheme \<Rightarrow> nat \<Rightarrow> abort + ((err + uint64) \<times> nat)" where
  "randValIndex H bState g =
     (case ActiveValidatorCount H bState (CurrentEpoch H bState) of
        Inl e \<Rightarrow> Inr (Inl e, g)
      | Inr activeCount \<Rightarrow>
          remainder (rand_Uint64 H g) activeCount (\<lambda>r. Inr (Inr r, Suc g)))"

subsection \<open>generateProposerSlashings\<close>

text \<open>The body of the loop: one slashing, from one random validator index.\<close>

definition proposerSlashing ::
  "'a helpers \<Rightarrow> 'a BeaconState_scheme \<Rightarrow> SecretKey list \<Rightarrow> uint64 \<Rightarrow> nat
     \<Rightarrow> abort + (ProposerSlashing \<times> nat)" where
  "proposerSlashing H bState privs currentEpoch g =
     next_step (randValIndex H bState g) (\<lambda>(r, g').
     must r (\<lambda>proposerIndex.
     let header1 = \<lparr>header_Slot = state_Slot bState, header_StateRoot = [],
                     header_BodyRoot = [0, 1, 0], header_Signature = []\<rparr> in
     must (SigningRoot_header H header1) (\<lambda>root.
     let domain = Domain H (state_Fork bState) currentEpoch (DomainBeaconProposer H) in
     index privs proposerIndex (\<lambda>priv.
     let header1 = header1\<lparr>header_Signature := Sign H priv root domain\<rparr>;
         header2 = \<lparr>header_Slot = state_Slot bState, header_StateRoot = [],
                     header_BodyRoot = [0, 2, 0], header_Signature = []\<rparr> in
     must (SigningRoot_header H header2) (\<lambda>root.
     index privs proposerIndex (\<lambda>priv.
     let header2 = header2\<lparr>header_Signature := Sign H priv root domain\<rparr> in
     Inr (\<lparr>ProposerIndex = proposerIndex, Header_1 = header1, Header_2 = header2\<rparr>,
          g')))))))"

text \<open>\<^verbatim>\<open>for i := uint64(0); i < numSlashings; i++\<close>, writing slot \<open>i\<close> of the
  slice made with \<^verbatim>\<open>make([]*ethpb.ProposerSlashing, numSlashings)\<close>, whose
  entries start as nil pointers (\<open>None\<close>).\<close>

function proposerSlashings_loop ::
  "'a helpers \<Rightarrow> 'a BeaconState_scheme \<Rightarrow> SecretKey list \<Rightarrow> uint64 \<Rightarrow> uint64 \<Rightarrow> uint64
     \<Rightarrow> ProposerSlashing option list \<Rightarrow> nat
     \<Rightarrow> abort + (ProposerSlashing option list \<times> nat)" where
  "proposerSlashings_loop H bState privs currentEpoch numSlashings i proposerSlashings g =
     (if i < numSlashings then
        (case proposerSlashing H bState privs currentEpoch g of
           Inl a \<Rightarrow> Inl a
         | Inr (slashing, g') \<Rightarrow>
             proposerSlashings_loop H bState privs currentEpoch numSlashings (i + 1)
               (proposerSlashings[unat i := Some slashing]) g')
      else Inr (proposerSlashings, g))"
  by pat_completeness auto

lemma unat_increment: "(i :: uint64) < n \<Longrightarrow> unat (i + 1) = Suc (unat i)"
proof -
  assume "i < n"
  then have "unat i < unat n" by (simp add: word_less_nat_alt)
  moreover have "unat n < 2 ^ 64" using unsigned_less [of n, where 'a = nat] by simp
  ultimately have "unat i + unat (1 :: uint64) < 2 ^ LENGTH(64)" by simp
  then have "unat (i + 1) = unat i + unat (1 :: uint64)" by (simp only: unat_add_lem)
  then show ?thesis by simp
qed

termination proposerSlashings_loop
  by (relation "measure (\<lambda>(H, bState, privs, currentEpoch, numSlashings, i, acc, g).
                  unat numSlashings - unat i)")
     (auto simp: unat_increment word_less_nat_alt)

declare proposerSlashings_loop.simps [simp del]

definition generateProposerSlashings ::
  "'a helpers \<Rightarrow> 'a BeaconState_scheme \<Rightarrow> SecretKey list \<Rightarrow> uint64 \<Rightarrow> nat
     \<Rightarrow> abort + (ProposerSlashing option list \<times> nat)" where
  "generateProposerSlashings H bState privs numSlashings g =
     (let currentEpoch = CurrentEpoch H bState in
      make_slice H numSlashings (\<lambda>proposerSlashings.
      proposerSlashings_loop H bState privs currentEpoch numSlashings 0 proposerSlashings g))"

subsection \<open>generateAttesterSlashings\<close>

text \<open>go-bitfield's \<^verbatim>\<open>NewBitlist(n)\<close> is a list of \<open>n\<close> cleared bits, and
  \<^verbatim>\<open>SetBitAt(i, v)\<close> does nothing when \<open>i\<close> is not below the length.\<close>

definition NewBitlist :: "uint64 \<Rightarrow> bool list" where
  "NewBitlist n = replicate (unat n) False"

definition SetBitAt :: "bool list \<Rightarrow> uint64 \<Rightarrow> bool \<Rightarrow> bool list" where
  "SetBitAt bits i v = (if unat i < length bits then bits[unat i := v] else bits)"

text \<open>The body of the loop, for index \<open>i\<close>. It draws two random numbers: the
  committee index and the position of the signing validator in the committee.\<close>

definition attesterSlashing ::
  "'a helpers \<Rightarrow> 'a BeaconState_scheme \<Rightarrow> SecretKey list \<Rightarrow> uint64 \<Rightarrow> nat
     \<Rightarrow> abort + (AttesterSlashing \<times> nat)" where
  "attesterSlashing H bState privs i g =
     remainder (rand_Uint64 H g) (MaxCommitteesPerSlot H) (\<lambda>committeeIndex.
     must (BeaconCommittee H bState (state_Slot bState) committeeIndex) (\<lambda>committee.
     let committeeSize = (of_nat (length committee) :: uint64);
         aggregationBits = SetBitAt (NewBitlist committeeSize) i True;
         att1 = \<lparr>att_AggregationBits = aggregationBits,
                 att_Data = \<lparr>data_Slot = 0, data_Index = 0, data_BeaconBlockRoot = [],
                   data_Source = \<lparr>checkpoint_Epoch = i + 1, checkpoint_Root = ZeroHash H\<rparr>,
                   data_Target = \<lparr>checkpoint_Epoch = i, checkpoint_Root = ZeroHash H\<rparr>\<rparr>,
                 att_Signature = []\<rparr> in
     must (HashTreeRoot_data H (att_Data att1) False) (\<lambda>dataRoot.
     let domain = Domain H (state_Fork bState) i (DomainBeaconAttester H) in
     remainder (rand_Uint64 H (Suc g)) (of_nat (length committee)) (\<lambda>position.
     index committee position (\<lambda>valIndex.
     index privs valIndex (\<lambda>priv.
     let sig = Sign H priv dataRoot domain;
         att1 = att1\<lparr>att_Signature := AggregateSignatures H [sig]\<rparr>;
         att2 = \<lparr>att_AggregationBits = aggregationBits,
                 att_Data = \<lparr>data_Slot = 0, data_Index = 0, data_BeaconBlockRoot = [],
                   data_Source = \<lparr>checkpoint_Epoch = i, checkpoint_Root = ZeroHash H\<rparr>,
                   data_Target = \<lparr>checkpoint_Epoch = i, checkpoint_Root = ZeroHash H\<rparr>\<rparr>,
                 att_Signature = []\<rparr> in
     must (HashTreeRoot_data H (att_Data att2) False) (\<lambda>dataRoot.
     index privs valIndex (\<lambda>priv.
     let sig = Sign H priv dataRoot domain;
         att2 = att2\<lparr>att_Signature := AggregateSignatures H [sig]\<rparr> in
     must (ConvertToIndexed H bState att1) (\<lambda>indexedAtt1.
     must (ConvertToIndexed H bState att2) (\<lambda>indexedAtt2.
     Inr (\<lparr>Attestation_1 = indexedAtt1, Attestation_2 = indexedAtt2\<rparr>,
          Suc (Suc g))))))))))))"

function attesterSlashings_loop ::
  "'a helpers \<Rightarrow> 'a BeaconState_scheme \<Rightarrow> SecretKey list \<Rightarrow> uint64 \<Rightarrow> uint64
     \<Rightarrow> AttesterSlashing option list \<Rightarrow> nat
     \<Rightarrow> abort + (AttesterSlashing option list \<times> nat)" where
  "attesterSlashings_loop H bState privs numSlashings i attesterSlashings g =
     (if i < numSlashings then
        (case attesterSlashing H bState privs i g of
           Inl a \<Rightarrow> Inl a
         | Inr (slashing, g') \<Rightarrow>
             attesterSlashings_loop H bState privs numSlashings (i + 1)
               (attesterSlashings[unat i := Some slashing]) g')
      else Inr (attesterSlashings, g))"
  by pat_completeness auto

termination attesterSlashings_loop
  by (relation "measure (\<lambda>(H, bState, privs, numSlashings, i, acc, g).
                  unat numSlashings - unat i)")
     (auto simp: unat_increment word_less_nat_alt)

declare attesterSlashings_loop.simps [simp del]

definition generateAttesterSlashings ::
  "'a helpers \<Rightarrow> 'a BeaconState_scheme \<Rightarrow> SecretKey list \<Rightarrow> uint64 \<Rightarrow> nat
     \<Rightarrow> abort + (AttesterSlashing option list \<times> nat)" where
  "generateAttesterSlashings H bState privs numSlashings g =
     make_slice H numSlashings (\<lambda>attesterSlashings.
     attesterSlashings_loop H bState privs numSlashings 0 attesterSlashings g)"

subsection \<open>GenerateAttestations\<close>

text \<open>\<^verbatim>\<open>math.Trunc\<close>: the integer part, towards zero.\<close>

definition Trunc :: "real \<Rightarrow> real" where
  "Trunc x = (if 0 \<le> x then of_int \<lfloor>x\<rfloor> else of_int \<lceil>x\<rceil>)"

text \<open>
  \<^verbatim>\<open>attsPerCommittee := math.Min(float64(maxAttestations/committeesPerSlot), 1)\<close>:
  the quotient is an integer division of two uint64, which panics on a zero divisor.
  The conversion to float64 is written \<open>real\<close>: rounding to the nearest float64 maps
  0 to 0 and every other quotient to a value of at least 1, so the minimum with 1 is
  the same number. The scan of the committees that follows the check is
  \<open>attestationRounds\<close>.
\<close>

definition GenerateAttestations ::
  "'a helpers \<Rightarrow> 'a BeaconState_scheme \<Rightarrow> SecretKey list \<Rightarrow> BlockGenConfig
     \<Rightarrow> abort + Attestation option list" where
  "GenerateAttestations H bState privs conf =
     (let maxAttestations = MaxAttestations conf;
          currentEpoch = CurrentEpoch H bState in
      make_slice H maxAttestations (\<lambda>attestations.
      let epochStartSlot = StartSlot H currentEpoch in
      next_step
        (if state_Slot bState + 1 = StartSlot H (currentEpoch + 1) then
           must (ProcessSlots H bState (state_Slot bState + 1)) (\<lambda>headState.
           must (BlockRootAtSlot H headState (state_Slot bState)) (\<lambda>headRoot.
           Inr (headRoot, headRoot)))
         else
           must (BlockRootAtSlot H bState epochStartSlot) (\<lambda>targetRoot.
           Inr (replicate 32 0, targetRoot)))
        (\<lambda>(headRoot, targetRoot).
      must (CommitteeCountAtSlot H bState (state_Slot bState)) (\<lambda>committeesPerSlot.
      if committeesPerSlot = 0 then Inl DivideByZero
      else
        let attsPerCommittee =
              min (real (unat (maxAttestations div committeesPerSlot))) 1 in
        if Trunc attsPerCommittee = attsPerCommittee then
          Inl (Fatal ''requested attestations must be easily divisible, '')
        else
          attestationRounds H bState privs conf attestations headRoot targetRoot
            committeesPerSlot attsPerCommittee))))"

subsection \<open>generateDepositsAndEth1Data\<close>

text \<open>\<^verbatim>\<open>currentDeposits[previousDepsLen:]\<close> panics when the lower bound is above
  the length; the sum \<^verbatim>\<open>previousDepsLen+numDeposits\<close> wraps.\<close>

definition generateDepositsAndEth1Data ::
  "'a helpers \<Rightarrow> 'a BeaconState_scheme \<Rightarrow> uint64 \<Rightarrow> abort + (Deposit list \<times> Eth1DataT)" where
  "generateDepositsAndEth1Data H bState numDeposits =
     (let previousDepsLen = state_Eth1DepositIndex bState in
      next_step (SetupInitialDeposits H (previousDepsLen + numDeposits)) (\<lambda>currentDeposits.
      next_step (GenerateEth1Data H currentDeposits) (\<lambda>eth1Data.
      if unat previousDepsLen \<le> length currentDeposits then
        Inr (drop (unat previousDepsLen) currentDeposits, eth1Data)
      else Inl SliceBoundsOutOfRange)))"

subsection \<open>generateVoluntaryExits\<close>

definition voluntaryExit ::
  "'a helpers \<Rightarrow> 'a BeaconState_scheme \<Rightarrow> SecretKey list \<Rightarrow> uint64 \<Rightarrow> nat
     \<Rightarrow> abort + (VoluntaryExit \<times> nat)" where
  "voluntaryExit H bState privs currentEpoch g =
     next_step (randValIndex H bState g) (\<lambda>(r, g').
     must r (\<lambda>valIndex.
     let exit = \<lparr>exit_Epoch = PrevEpoch H bState, exit_ValidatorIndex = valIndex,
                  exit_Signature = []\<rparr> in
     must (SigningRoot_exit H exit) (\<lambda>root.
     let domain = Domain H (state_Fork bState) currentEpoch (DomainVoluntaryExit H) in
     index privs valIndex (\<lambda>priv.
     Inr (exit\<lparr>exit_Signature := Sign H priv root domain\<rparr>, g')))))"

text \<open>\<^verbatim>\<open>for i := 0; i < len(voluntaryExits); i++\<close>, with an \<^verbatim>\<open>int\<close> index.\<close>

function voluntaryExits_loop ::
  "'a helpers \<Rightarrow> 'a BeaconState_scheme \<Rightarrow> SecretKey list \<Rightarrow> uint64 \<Rightarrow> nat
     \<Rightarrow> VoluntaryExit option list \<Rightarrow> nat \<Rightarrow> abort + (VoluntaryExit option list \<times> nat)" where
  "voluntaryExits_loop H bState privs currentEpoch i voluntaryExits g =
     (if i < length voluntaryExits then
        (case voluntaryExit H bState privs currentEpoch g of
           Inl a \<Rightarrow> Inl a
         | Inr (exit, g') \<Rightarrow>
             voluntaryExits_loop H bState privs currentEpoch (Suc i)
               (voluntaryExits[i := Some exit]) g')
      else Inr (voluntaryExits, g))"
  by pat_completeness auto

termination voluntaryExits_loop
  by (relation "measure (\<lambda>(H, bState, privs, currentEpoch, i, acc, g). length acc - i)")
     auto

declare voluntaryExits_loop.simps [simp del]

definition generateVoluntaryExits ::
  "'a helpers \<Rightarrow> 'a BeaconState_scheme \<Rightarrow> SecretKey list \<Rightarrow> uint64 \<Rightarrow> nat
     \<Rightarrow> abort + (VoluntaryExit option list \<times> nat)" where
  "generateVoluntaryExits H bState privs numExits g =
     (let currentEpoch = CurrentEpoch H bState in
      must (ActiveValidatorCount H bState currentEpoch) (\<lambda>validatorCount.
      make_slice H numExits (\<lambda>voluntaryExits.
      voluntaryExits_loop H bState privs currentEpoch 0 voluntaryExits g)))"

subsection \<open>GenerateFullBlock\<close>

text \<open>Lines 59 to 93: the operations of the block and the parent root. Nothing here
  writes to the state.\<close>

definition blockOperations ::
  "'a helpers \<Rightarrow> 'a BeaconState_scheme \<Rightarrow> SecretKey list \<Rightarrow> BlockGenConfig \<Rightarrow> nat
     \<Rightarrow> abort + (ProposerSlashing option list \<times> AttesterSlashing option list
          \<times> Attestation option list \<times> Deposit list \<times> Eth1DataT
          \<times> VoluntaryExit option list \<times> bytes \<times> nat)" where
  "blockOperations H bState privs conf g =
     next_step
       (if MaxProposerSlashings conf > 0
        then generateProposerSlashings H bState privs (MaxProposerSlashings conf) g
        else Inr ([], g)) (\<lambda>(pSlashings, g).
     next_step
       (if MaxAttesterSlashings conf > 0
        then generateAttesterSlashings H bState privs (MaxAttesterSlashings conf) g
        else Inr ([], g)) (\<lambda>(aSlashings, g).
     next_step
       (if MaxAttestations conf > 0
        then GenerateAttestations H bState privs conf
        else Inr []) (\<lambda>atts.
     next_step
       (if MaxDeposits conf > 0
        then generateDepositsAndEth1Data H bState (MaxDeposits conf)
        else Inr ([], state_Eth1Data bState)) (\<lambda>(newDeposits, eth1Data).
     next_step
       (if MaxVoluntaryExits conf > 0
        then generateVoluntaryExits H bState privs (MaxVoluntaryExits conf) g
        else Inr ([], g)) (\<lambda>(exits, g).
     let newHeader = state_LatestBlockHeader bState in
     must (HashTreeRoot_state H bState) (\<lambda>prevStateRoot.
     let newHeader = newHeader\<lparr>header_StateRoot := prevStateRoot\<rparr> in
     must (SigningRoot_header H newHeader) (\<lambda>parentRoot.
     Inr (pSlashings, aSlashings, atts, newDeposits, eth1Data, exits, parentRoot, g))))))))"

text \<open>Lines 95 to 105: the randao reveal. With signatures the state's slot is set to
  the requested slot for the call and set back after it; when the call fails the test
  ends with the slot still changed. The result is paired with the state as it is left.\<close>

definition randaoReveal ::
  "'a helpers \<Rightarrow> 'a BeaconState_scheme \<Rightarrow> SecretKey list \<Rightarrow> BlockGenConfig \<Rightarrow> uint64 \<Rightarrow> uint64
     \<Rightarrow> (abort + bytes) \<times> 'a BeaconState_scheme" where
  "randaoReveal H bState privs conf slot currentSlot =
     (if Signatures conf then
        let bState = bState\<lparr>state_Slot := slot\<rparr> in
        (case CreateRandaoReveal H bState (CurrentEpoch H bState) privs of
           Inl e \<Rightarrow> (Inl (Fatal e), bState)
         | Inr reveal \<Rightarrow> (Inr reveal, bState\<lparr>state_Slot := currentSlot\<rparr>))
      else (Inr [1, 2, 3, 4], bState))"

text \<open>Lines 131 to 146: the block's signature, with the same change of the slot around
  the call of BeaconProposerIndex.\<close>

definition signBlock ::
  "'a helpers \<Rightarrow> 'a BeaconState_scheme \<Rightarrow> SecretKey list \<Rightarrow> BlockGenConfig \<Rightarrow> uint64 \<Rightarrow> uint64
     \<Rightarrow> BeaconBlock \<Rightarrow> (abort + BeaconBlock) \<times> 'a BeaconState_scheme" where
  "signBlock H bState privs conf slot currentSlot block =
     (if Signatures conf then
        (case SigningRoot_block H block of
           Inl e \<Rightarrow> (Inl (Fatal e), bState)
         | Inr blockRoot \<Rightarrow>
             let bState = bState\<lparr>state_Slot := slot\<rparr> in
             (case BeaconProposerIndex H bState of
                Inl e \<Rightarrow> (Inl (Fatal e), bState)
              | Inr proposerIdx \<Rightarrow>
                  let bState = bState\<lparr>state_Slot := currentSlot\<rparr>;
                      domain = Domain H (state_Fork bState) (CurrentEpoch H bState)
                                 (DomainBeaconProposer H) in
                  (index privs proposerIdx (\<lambda>priv.
                     Inr (block\<lparr>block_Signature := Sign H priv blockRoot domain\<rparr>)),
                   bState)))
      else (Inr block, bState))"

text \<open>The whole function. The state is passed by pointer in Go: the result is paired
  with the state as the call leaves it, also when the test is ended.\<close>

definition GenerateFullBlock ::
  "'a helpers \<Rightarrow> 'a BeaconState_scheme \<Rightarrow> SecretKey list \<Rightarrow> BlockGenConfig \<Rightarrow> uint64 \<Rightarrow> nat
     \<Rightarrow> (abort + (BeaconBlock \<times> nat)) \<times> 'a BeaconState_scheme" where
  "GenerateFullBlock H bState privs conf slot g =
     (let currentSlot = state_Slot bState in
      if currentSlot > slot then
        (Inl (Fatal ''Current slot in state is larger than given slot. %d > %d''), bState)
      else
        (case blockOperations H bState privs conf g of
           Inl a \<Rightarrow> (Inl a, bState)
         | Inr (pSlashings, aSlashings, atts, newDeposits, eth1Data, exits, parentRoot, g') \<Rightarrow>
             (case randaoReveal H bState privs conf slot currentSlot of
                (Inl a, bState) \<Rightarrow> (Inl a, bState)
              | (Inr reveal, bState) \<Rightarrow>
                  let block = \<lparr>block_Slot = slot, block_ParentRoot = parentRoot,
                        block_StateRoot = [],
                        block_Body = \<lparr>body_Eth1Data = eth1Data, body_RandaoReveal = reveal,
                          body_ProposerSlashings = pSlashings,
                          body_AttesterSlashings = aSlashings,
                          body_Attestations = atts, body_VoluntaryExits = exits,
                          body_Deposits = newDeposits\<rparr>,
                        block_Signature = []\<rparr> in
                  (case CalculateStateRoot H bState block of
                     Inl e \<Rightarrow> (Inl (Fatal e), bState)
                   | Inr s \<Rightarrow>
                       (case HashTreeRoot_state H s of
                          Inl e \<Rightarrow> (Inl (Fatal e), bState)
                        | Inr stateRoot \<Rightarrow>
                            (case signBlock H bState privs conf slot currentSlot
                                    (block\<lparr>block_StateRoot := stateRoot\<rparr>) of
                               (Inl a, bState) \<Rightarrow> (Inl a, bState)
                             | (Inr block, bState) \<Rightarrow> (Inr (block, g'), bState)))))))"

subsection \<open>Well-formed records\<close>

text \<open>A header is signed by a key when its signature is that key's signature of the
  signing root the header had before the signature was set.\<close>

definition signedBy :: "'a helpers \<Rightarrow> SecretKey \<Rightarrow> uint64 \<Rightarrow> BeaconBlockHeader \<Rightarrow> bool" where
  "signedBy H priv domain h =
     (case SigningRoot_header H (h\<lparr>header_Signature := []\<rparr>) of
        Inl e \<Rightarrow> False
      | Inr r \<Rightarrow> header_Signature h = Sign H priv r domain)"

text \<open>A well-formed double-proposal pair for a state: both headers at the state's
  slot, the two body roots of the source (which differ), and both signed with the key
  of the record's proposer index.\<close>

definition doubleProposalPair ::
  "'a helpers \<Rightarrow> 'a BeaconState_scheme \<Rightarrow> SecretKey list \<Rightarrow> ProposerSlashing \<Rightarrow> bool" where
  "doubleProposalPair H bState privs p =
     (header_Slot (Header_1 p) = state_Slot bState \<and>
      header_Slot (Header_2 p) = state_Slot bState \<and>
      header_BodyRoot (Header_1 p) = [0, 1, 0] \<and>
      header_BodyRoot (Header_2 p) = [0, 2, 0] \<and>
      header_BodyRoot (Header_1 p) \<noteq> header_BodyRoot (Header_2 p) \<and>
      unat (ProposerIndex p) < length privs \<and>
      (let priv = privs ! unat (ProposerIndex p);
           domain = Domain H (state_Fork bState) (CurrentEpoch H bState) (DomainBeaconProposer H)
       in signedBy H priv domain (Header_1 p) \<and> signedBy H priv domain (Header_2 p)))"

definition sourceEpoch :: "IndexedAttestation \<Rightarrow> uint64" where
  "sourceEpoch a = checkpoint_Epoch (data_Source (indexed_Data a))"

definition targetEpoch :: "IndexedAttestation \<Rightarrow> uint64" where
  "targetEpoch a = checkpoint_Epoch (data_Target (indexed_Data a))"

text \<open>The epochs of the two attestations the loop builds at index \<open>i\<close>: both
  with target \<open>i\<close>, the first with source \<open>i + 1\<close>, the second with source \<open>i\<close>.\<close>

definition doubleVoteData :: "uint64 \<Rightarrow> AttestationData \<Rightarrow> AttestationData \<Rightarrow> bool" where
  "doubleVoteData i d1 d2 =
     (checkpoint_Epoch (data_Target d1) = i \<and> checkpoint_Epoch (data_Source d1) = i + 1 \<and>
      checkpoint_Epoch (data_Target d2) = i \<and> checkpoint_Epoch (data_Source d2) = i)"

text \<open>An attester slashing is the conversion of such a pair:
  \<^verbatim>\<open>blocks.ConvertToIndexed\<close> returned its two indexed attestations for two
  attestations with these epochs.\<close>

definition doubleVotePair ::
  "'a helpers \<Rightarrow> 'a BeaconState_scheme \<Rightarrow> uint64 \<Rightarrow> AttesterSlashing \<Rightarrow> bool" where
  "doubleVotePair H bState i a =
     (\<exists>att1 att2.
        ConvertToIndexed H bState att1 = Inr (Attestation_1 a) \<and>
        ConvertToIndexed H bState att2 = Inr (Attestation_2 a) \<and>
        doubleVoteData i (att_Data att1) (att_Data att2))"

text \<open>\<^verbatim>\<open>blocks.ConvertToIndexed\<close> is not part of block.go. The property below is
  what a statement about the epochs of the indexed attestations asks of it: the indexed
  attestation carries the attestation's data.\<close>

definition keepsData :: "'a helpers \<Rightarrow> bool" where
  "keepsData H =
     (\<forall>s att indexed. ConvertToIndexed H s att = Inr indexed \<longrightarrow>
        indexed_Data indexed = att_Data att)"

subsection \<open>A concrete instance\<close>

text \<open>Helper functions, a state and a configuration on which the generators run to
  the end; \<open>testHelpers c\<close> reports \<open>c\<close> active validators.\<close>

definition testHelpers :: "uint64 \<Rightarrow> unit helpers" where
  "testHelpers activeCount =
     \<lparr>CurrentEpoch = (\<lambda>s. state_Slot s div 8),
      PrevEpoch = (\<lambda>s. state_Slot s div 8 - 1),
      StartSlot = (\<lambda>e. e * 8),
      ActiveValidatorCount = (\<lambda>s e. Inr activeCount),
      BeaconCommittee = (\<lambda>s slot i. Inr [0, 1]),
      BeaconProposerIndex = (\<lambda>s. Inr 0),
      BlockRootAtSlot = (\<lambda>s slot. Inr []),
      CommitteeCountAtSlot = (\<lambda>s slot. Inr 1),
      Domain = (\<lambda>fork epoch domainType. epoch),
      DomainBeaconProposer = [0],
      DomainBeaconAttester = [1],
      DomainVoluntaryExit = [2],
      MaxCommitteesPerSlot = 64,
      ZeroHash = [],
      HashTreeRoot_state = (\<lambda>s. Inr []),
      HashTreeRoot_data = (\<lambda>d custodyBit. Inr []),
      SigningRoot_header = (\<lambda>h. Inr (header_BodyRoot h)),
      SigningRoot_block = (\<lambda>b. Inr []),
      SigningRoot_exit = (\<lambda>e. Inr []),
      Sign = (\<lambda>priv r domain. priv @ r),
      AggregateSignatures = concat,
      ConvertToIndexed = (\<lambda>s a. Inr \<lparr>indexed_Indices = [], indexed_Data = att_Data a,
                                       indexed_Signature = att_Signature a\<rparr>),
      ProcessSlots = (\<lambda>s slot. Inr (s\<lparr>state_Slot := slot\<rparr>)),
      CalculateStateRoot = (\<lambda>s b. Inr s),
      CreateRandaoReveal = (\<lambda>s e privs. Inr []),
      SetupInitialDeposits = (\<lambda>n. Inr (replicate (unat n) [])),
      GenerateEth1Data = (\<lambda>ds. Inr []),
      rand_Uint64 = (\<lambda>k. of_nat k),
      makeLimit = 1024,
      attestationRounds = (\<lambda>s privs conf atts headRoot targetRoot c a. Inr [])\<rparr>"

definition testState :: BeaconState where
  "testState =
     \<lparr>state_Slot = 3, state_Fork = [],
      state_LatestBlockHeader = \<lparr>header_Slot = 2, header_StateRoot = [],
         header_BodyRoot = [], header_Signature = []\<rparr>,
      state_Eth1Data = [], state_Eth1DepositIndex = 0,
      state_CurrentJustifiedCheckpoint = \<lparr>checkpoint_Epoch = 0, checkpoint_Root = []\<rparr>\<rparr>"

definition testConfig :: BlockGenConfig where
  "testConfig = \<lparr>MaxProposerSlashings = 1, MaxAttesterSlashings = 1, MaxAttestations = 0,
     MaxDeposits = 1, MaxVoluntaryExits = 1, Signatures = True\<rparr>"

section \<open>The slasher's detection core\<close>

text \<open>
  Of the slasher only the stored messages are among the sources
  (\<^verbatim>\<open>proto/slashing/slashing.proto\<close>); the code of the detectors and of the status
  store is not. The types below follow the proto messages, the operations are modelled
  from the specification, each marked as such. A span is a \<^verbatim>\<open>uint32\<close>, as the
  proto message and section 3 have it. Epochs and validator indices are natural
  numbers: the specification takes epochs as logical clocks and says nothing of an
  overflow of their \<^verbatim>\<open>uint64\<close> fields.
\<close>

subsection \<open>Stored messages and outcomes\<close>

type_synonym epoch = nat
type_synonym validator_index = nat
type_synonym uint32 = "32 word"

text \<open>\<^verbatim>\<open>SlashingStatusRequest.SlashingStatus\<close>.\<close>

datatype SlashingStatus = Unknown | Active | Included | Reverted

text \<open>\<^verbatim>\<open>MinMaxEpochSpan\<close>, \<^verbatim>\<open>EpochSpanMap\<close> and \<^verbatim>\<open>AttestationHistory\<close>; an epoch
  without an entry in the span map has the span 0, 0.\<close>

record MinMaxEpochSpan =
  min_epoch_span :: uint32
  max_epoch_span :: uint32

type_synonym EpochSpanMap = "epoch \<rightharpoonup> MinMaxEpochSpan"

record AttestationHistory =
  target_to_source :: "epoch \<rightharpoonup> epoch"
  latest_epoch_written :: epoch

text \<open>Modelled from the spec: the per-validator entry of the SpanStore (sections 2, 3),
  whose code is missing: the span map and the attestation history of one validator.\<close>

record SpanStoreEntry =
  epoch_span_map :: EpochSpanMap
  attestation_history :: AttestationHistory

type_synonym SpanStore = "validator_index \<Rightarrow> SpanStoreEntry"

text \<open>Modelled from the spec: the error kinds of section 7 and the outcome of a
  detector (section 4.1), whose declarations are missing. A violation names its kind
  and the target epoch of the recorded vote it conflicts with, and carries the
  offending attestation. The kinds are the new vote's side of the conflict:
  \<open>Surrounds\<close> when the new vote surrounds a recorded one, \<open>Surrounded\<close> when
  a recorded vote surrounds the new one.\<close>

datatype error = InvalidInput | StaleInput | StorageError | InvalidTransition

datatype violation = DoubleVote | Surrounds | Surrounded

datatype 'a outcome = NoViolation | Violation violation epoch 'a | Failed error

subsection \<open>SurroundDetector\<close>



definition span_at :: "EpochSpanMap \<Rightarrow> epoch \<Rightarrow> MinMaxEpochSpan" where
  "span_at m e =
     (case m e of None \<Rightarrow> \<lparr>min_epoch_span = 0, max_epoch_span = 0\<rparr> | Some sp \<Rightarrow> sp)"

text \<open>
  Modelled from the spec: the span merge of section 4.1, step 3 (widen the max span,
  narrow the min span where the new vote is closer); the detector's code is missing.
  Section 9 leaves the exact rule open and points to the min-max-surround algorithm,
  which the proto file cites too, and that rule is taken here. For a vote with source
  \<open>s\<close> and target \<open>t\<close>: at each epoch \<open>e\<close> strictly between \<open>s\<close> and \<open>t\<close>
  the max span becomes at least \<open>t - e\<close>; at each epoch \<open>e\<close> before \<open>s\<close> the min
  span becomes at most \<open>t - e\<close>, a min span of 0 standing for none recorded.
\<close>

text \<open>Modelled from the spec: a distance is stored in a \<^verbatim>\<open>uint32\<close> field (section 3
  and the proto message). Neither says what becomes of a distance of \<open>2^32\<close> or more;
  here the conversion truncates, as Go's \<^verbatim>\<open>uint32(d)\<close> does.\<close>

definition span_of :: "nat \<Rightarrow> uint32" where
  "span_of d = of_nat d"

definition narrow_min :: "uint32 \<Rightarrow> uint32 \<Rightarrow> uint32" where
  "narrow_min old d = (if old = 0 \<or> d < old then d else old)"

definition update_spans :: "EpochSpanMap \<Rightarrow> epoch \<Rightarrow> epoch \<Rightarrow> EpochSpanMap" where
  "update_spans m s t =
     (\<lambda>e. if e < s then
            Some ((span_at m e)\<lparr>min_epoch_span :=
                    narrow_min (min_epoch_span (span_at m e)) (span_of (t - e))\<rparr>)
          else if s < e \<and> e < t then
            Some ((span_at m e)\<lparr>max_epoch_span :=
                    max (max_epoch_span (span_at m e)) (span_of (t - e))\<rparr>)
          else m e)"

text \<open>
  Modelled from the spec: the retention window of section 4.1, step 4, of size \<open>W\<close>
  (a configuration constant, section 9); the pruning code is missing. With
  \<open>latest\<close> the latest epoch written, the epochs above \<open>latest - W\<close> are retained,
  and pruning drops the entries of all other epochs, from the span map and from
  target_to_source alike.
\<close>

definition retained :: "nat \<Rightarrow> epoch \<Rightarrow> epoch \<Rightarrow> bool" where
  "retained W latest e = (latest < e + W)"

definition prune :: "nat \<Rightarrow> epoch \<Rightarrow> (epoch \<rightharpoonup> 'v) \<Rightarrow> (epoch \<rightharpoonup> 'v)" where
  "prune W latest m = (\<lambda>e. if retained W latest e then m e else None)"

text \<open>Modelled from the spec: steps 3 and 4 of section 4.1: merge the spans, record
  the vote under its target, advance latest_epoch_written, prune.\<close>

definition record_vote :: "nat \<Rightarrow> SpanStoreEntry \<Rightarrow> epoch \<Rightarrow> epoch \<Rightarrow> SpanStoreEntry" where
  "record_vote W entry s t =
     (let h = attestation_history entry;
          latest = max (latest_epoch_written h) t in
      \<lparr>epoch_span_map = prune W latest (update_spans (epoch_span_map entry) s t),
       attestation_history =
         \<lparr>target_to_source = prune W latest ((target_to_source h)(t \<mapsto> s)),
          latest_epoch_written = latest\<rparr>\<rparr>)"

text \<open>
  Modelled from the spec: \<^verbatim>\<open>SurroundDetector.check_and_update\<close> of section 4.1, whose
  code is missing. Malformed input (target before source) is rejected first
  (sections 4.1 and 7); a source epoch that has left the retention window is
  StaleInput (sections 7 and 8: its span entry is pruned and the query cannot be
  decided; section 4.1 itself names only InvalidInput and StorageError); then step 1, the double-vote lookup; then step 2 on the span stored for the
  source epoch: the vote is surrounded when its distance \<open>t - s\<close> is below the max
  span, and surrounds when its distance is above a recorded min span; then steps 3 and
  4. Every outcome but NoViolation leaves the store as it is, and only the entry of
  the one validator is ever written.
\<close>

definition check_and_update ::
  "nat \<Rightarrow> SpanStore \<Rightarrow> validator_index \<Rightarrow> epoch \<Rightarrow> epoch \<Rightarrow> 'a \<Rightarrow> 'a outcome \<times> SpanStore" where
  "check_and_update W store v s t att =
     (let entry = store v;
          h = attestation_history entry;
          sp = span_at (epoch_span_map entry) s;
          d = t - s in
      if t < s then (Failed InvalidInput, store)
      else if \<not> retained W (latest_epoch_written h) s then (Failed StaleInput, store)
      else if (case target_to_source h t of None \<Rightarrow> False | Some s' \<Rightarrow> s' \<noteq> s) then
        (Violation DoubleVote t att, store)
      else if d < unat (max_epoch_span sp) then
        (Violation Surrounded (s + unat (max_epoch_span sp)) att, store)
      else if min_epoch_span sp \<noteq> 0 \<and> unat (min_epoch_span sp) < d then
        (Violation Surrounds (s + unat (min_epoch_span sp)) att, store)
      else (NoViolation, store(v := record_vote W entry s t)))"


text \<open>
  Modelled from the spec: the surround conditions in the words of section 4.1, step 2,
  over the votes recorded in target_to_source: a new vote surrounds a prior one with
  \<open>s < s'\<close> and \<open>t' < t\<close>, and is surrounded by a prior one with \<open>s' < s\<close> and
  \<open>t < t'\<close>.
\<close>

definition voted :: "SpanStoreEntry \<Rightarrow> epoch \<Rightarrow> epoch \<Rightarrow> bool" where
  "voted entry s t = (target_to_source (attestation_history entry) t = Some s)"



text \<open>What the spans of a retained epoch summarise: the recorded votes, exactly.\<close>

definition latest :: "SpanStoreEntry \<Rightarrow> epoch" where
  "latest entry = latest_epoch_written (attestation_history entry)"

definition min_at :: "SpanStoreEntry \<Rightarrow> epoch \<Rightarrow> nat" where
  "min_at entry e = unat (min_epoch_span (span_at (epoch_span_map entry) e))"

definition max_at :: "SpanStoreEntry \<Rightarrow> epoch \<Rightarrow> nat" where
  "max_at entry e = unat (max_epoch_span (span_at (epoch_span_map entry) e))"










subsection \<open>SlashingStatusTracker\<close>

text \<open>
  Modelled from the spec: the evidence store of section 4.3, whose code is missing.
  The store is the list of the records in insertion order, and the id of a record is
  its position.
\<close>

record 'e SlashingRecord =
  evidence :: 'e
  status :: SlashingStatus

type_synonym 'e tracker = "'e SlashingRecord list"

text \<open>Modelled from the spec: the transition table of section 3: Unknown to Active,
  Active to Included, Included to Reverted, Reverted to Active, and no other edge.\<close>

fun valid_transition :: "SlashingStatus \<Rightarrow> SlashingStatus \<Rightarrow> bool" where
  "valid_transition Unknown Active = True"
| "valid_transition Active Included = True"
| "valid_transition Included Reverted = True"
| "valid_transition Reverted Active = True"
| "valid_transition _ _ = False"

text \<open>Modelled from the spec: \<^verbatim>\<open>record\<close> of section 4.3. Evidence that is already
  stored keeps its id; new evidence is appended as Active, the status of a violation
  on discovery (section 3).\<close>

fun find_id :: "'e tracker \<Rightarrow> 'e \<Rightarrow> nat option" where
  "find_id [] ev = None"
| "find_id (r # rs) ev = (if evidence r = ev then Some 0 else map_option Suc (find_id rs ev))"

definition record_evidence :: "'e tracker \<Rightarrow> 'e \<Rightarrow> nat \<times> 'e tracker" where
  "record_evidence tr ev =
     (case find_id tr ev of
        Some i \<Rightarrow> (i, tr)
      | None \<Rightarrow> (length tr, tr @ [\<lparr>evidence = ev, status = Active\<rparr>]))"

text \<open>Modelled from the spec: \<^verbatim>\<open>transition\<close> of section 4.3: an edge of the table
  sets the status, any other request fails with InvalidTransition and changes nothing.
  The spec does not say what an id without a record gives; here it is InvalidInput.\<close>

definition transition :: "'e tracker \<Rightarrow> nat \<Rightarrow> SlashingStatus \<Rightarrow> (error + unit) \<times> 'e tracker" where
  "transition tr i new =
     (if length tr \<le> i then (Inl InvalidInput, tr)
      else if valid_transition (status (tr ! i)) new then
        (Inr (), tr[i := (tr ! i)\<lparr>status := new\<rparr>])
      else (Inl InvalidTransition, tr))"

text \<open>Modelled from the spec: \<^verbatim>\<open>query\<close> of section 4.3: the evidence with the
  requested status, in insertion order.\<close>

definition query :: "'e tracker \<Rightarrow> SlashingStatus \<Rightarrow> 'e list" where
  "query tr st = map evidence (filter (\<lambda>r. status r = st) tr)"

text \<open>The requests that change the store, and a sequence of them.\<close>

datatype 'e request = Record 'e | Transition nat SlashingStatus

fun serve :: "'e tracker \<Rightarrow> 'e request \<Rightarrow> 'e tracker" where
  "serve tr (Record ev) = snd (record_evidence tr ev)"
| "serve tr (Transition i new) = snd (transition tr i new)"

definition serve_all :: "'e tracker \<Rightarrow> 'e request list \<Rightarrow> 'e tracker" where
  "serve_all tr reqs = foldl serve tr reqs"

definition testTracker :: "string tracker" where
  "testTracker = [\<lparr>evidence = ''a'', status = Active\<rparr>, \<lparr>evidence = ''b'', status = Included\<rparr>]"

section \<open>Properties of the block generators\<close>

subsection \<open>generateProposerSlashings\<close>

lemma proposerSlashing_pair:
  assumes "proposerSlashing H bState privs (CurrentEpoch H bState) g = Inr (p, g')"
  shows "doubleProposalPair H bState privs p"
  using assms
  by (auto simp: proposerSlashing_def randValIndex_def next_step_def must_def index_def
        remainder_def doubleProposalPair_def signedBy_def Let_def
      split: sum.splits if_splits prod.splits)

lemma proposerSlashings_loop_result:
  assumes "proposerSlashings_loop H bState privs ce n i acc g = Inr (sl, g')"
    and "ce = CurrentEpoch H bState"
  shows "length sl = length acc \<and>
         (\<forall>k. unat i \<le> k \<and> k < unat n \<and> k < length acc \<longrightarrow>
               (\<exists>p. sl ! k = Some p \<and> doubleProposalPair H bState privs p)) \<and>
         (\<forall>k < unat i. sl ! k = acc ! k)"
  using assms
proof (induction H bState privs ce n i acc g rule: proposerSlashings_loop.induct)
  case (1 H bState privs ce n i acc g)
  show ?case
  proof (cases "i < n")
    case False
    with "1.prems" show ?thesis
      by (auto simp: word_less_nat_alt proposerSlashings_loop.simps [of _ _ _ _ n i])
  next
    case True
    with "1.prems" obtain p g1 where
      b: "proposerSlashing H bState privs ce g = Inr (p, g1)" and
      r: "proposerSlashings_loop H bState privs ce n (i + 1) (acc[unat i := Some p]) g1 = Inr (sl, g')"
      by (auto simp: proposerSlashings_loop.simps [of _ _ _ _ n i] split: sum.splits prod.splits)
    have ok: "doubleProposalPair H bState privs p"
      using b "1.prems"(2) proposerSlashing_pair by metis
    have ih: "length sl = length (acc[unat i := Some p]) \<and>
         (\<forall>k. unat (i + 1) \<le> k \<and> k < unat n \<and> k < length (acc[unat i := Some p]) \<longrightarrow>
               (\<exists>q. sl ! k = Some q \<and> doubleProposalPair H bState privs q)) \<and>
         (\<forall>k < unat (i + 1). sl ! k = acc[unat i := Some p] ! k)"
      using "1.IH" [OF True b refl r "1.prems"(2)] .
    have s: "unat (i + 1) = Suc (unat i)" using True by (rule unat_increment)
    show ?thesis
    proof (intro conjI allI impI)
      show "length sl = length acc" using ih by simp
    next
      fix k assume k: "unat i \<le> k \<and> k < unat n \<and> k < length acc"
      show "\<exists>q. sl ! k = Some q \<and> doubleProposalPair H bState privs q"
      proof (cases "k = unat i")
        case True
        then have "sl ! k = acc[unat i := Some p] ! k" using ih s by simp
        with True k ok show ?thesis by simp
      next
        case False
        with k s have "unat (i + 1) \<le> k" by simp
        with ih k show ?thesis by simp
      qed
    next
      fix k assume "k < unat i"
      then show "sl ! k = acc ! k" using ih s by simp
    qed
  qed
qed

lemma replicate_two: "replicate 2 x = [x, x]"
  by (simp add: numeral_2_eq_2)

text \<open>
  Claim C8, as amended. Whenever generateProposerSlashings returns, it returns a slice
  of exactly \<open>numSlashings\<close> records, none of them nil, and every record is a
  well-formed double-proposal pair: both headers carry the state's slot, the body roots
  are \<^verbatim>\<open>{0,1,0}\<close> and \<^verbatim>\<open>{0,2,0}\<close>, and both are signed with the key of the
  record's one proposer index.
\<close>

theorem generateProposerSlashings_records:
  assumes "generateProposerSlashings H bState privs n g = Inr (sl, g')"
  shows "length sl = unat n \<and>
         (\<forall>i < unat n. \<exists>p. sl ! i = Some p \<and> doubleProposalPair H bState privs p)"
proof -
  from assms have "proposerSlashings_loop H bState privs (CurrentEpoch H bState) n 0
        (replicate (unat n) None) g = Inr (sl, g')"
    by (simp add: generateProposerSlashings_def make_slice_def split: if_splits)
  from proposerSlashings_loop_result [OF this refl] show ?thesis
    by simp
qed

theorem generateProposerSlashings_records_witness:
  "\<exists>sl g'. generateProposerSlashings (testHelpers 2) testState [[1], [2]] 2 0 = Inr (sl, g') \<and>
     length sl = unat (2 :: uint64) \<and>
     (\<exists>p. sl ! 1 = Some p \<and> doubleProposalPair (testHelpers 2) testState [[1], [2]] p)"
proof -
  have "\<exists>sl g'. generateProposerSlashings (testHelpers 2) testState [[1], [2]] 2 0 = Inr (sl, g')"
    by (simp add: generateProposerSlashings_def make_slice_def proposerSlashings_loop.simps
        proposerSlashing_def randValIndex_def testHelpers_def testState_def next_step_def
        remainder_def must_def index_def Let_def replicate_two)
  then obtain sl g' where
    e: "generateProposerSlashings (testHelpers 2) testState [[1], [2]] 2 0 = Inr (sl, g')"
    by blast
  from generateProposerSlashings_records [OF e]
  have l: "length sl = unat (2 :: uint64)"
    and "\<forall>i < unat (2 :: uint64). \<exists>p. sl ! i = Some p \<and>
            doubleProposalPair (testHelpers 2) testState [[1], [2]] p"
    by blast+
  then have "\<exists>p. sl ! 1 = Some p \<and> doubleProposalPair (testHelpers 2) testState [[1], [2]] p"
    by simp
  with e l show ?thesis by blast
qed

text \<open>
  The claim as stated, for every beacon state, fails: with no active validator the
  remainder \<^verbatim>\<open>rand.Uint64() % activeCount\<close> of randValIndex divides by zero, and for
  a requested count of 1 no record is returned.
\<close>

theorem generateProposerSlashings_no_validator:
  "generateProposerSlashings (testHelpers 0) testState [[1], [2]] 1 0 = Inl DivideByZero"
  by (simp add: generateProposerSlashings_def make_slice_def proposerSlashings_loop.simps
      proposerSlashing_def randValIndex_def testHelpers_def next_step_def remainder_def)

subsection \<open>generateAttesterSlashings\<close>

lemma attesterSlashing_pair:
  assumes "attesterSlashing H bState privs i g = Inr (a, g')"
  shows "doubleVotePair H bState i a"
proof -
  let ?data = "\<lambda>src. \<lparr>data_Slot = 0, data_Index = 0, data_BeaconBlockRoot = [],
       data_Source = \<lparr>checkpoint_Epoch = src, checkpoint_Root = ZeroHash H\<rparr>,
       data_Target = \<lparr>checkpoint_Epoch = i, checkpoint_Root = ZeroHash H\<rparr>\<rparr>"
  from assms obtain att1 att2 where
    c: "ConvertToIndexed H bState att1 = Inr (Attestation_1 a)"
       "ConvertToIndexed H bState att2 = Inr (Attestation_2 a)" and
    d: "att_Data att1 = ?data (i + 1)" "att_Data att2 = ?data i"
    by (auto simp: attesterSlashing_def must_def index_def remainder_def Let_def
        split: sum.splits if_splits)
  from d have "doubleVoteData i (att_Data att1) (att_Data att2)"
    by (simp add: doubleVoteData_def)
  with c show ?thesis unfolding doubleVotePair_def by blast
qed

lemma attesterSlashings_loop_result:
  assumes "attesterSlashings_loop H bState privs n i acc g = Inr (sl, g')"
  shows "length sl = length acc \<and>
         (\<forall>k. i \<le> k \<and> k < n \<and> unat k < length acc \<longrightarrow>
               (\<exists>a. sl ! unat k = Some a \<and> doubleVotePair H bState k a)) \<and>
         (\<forall>k < unat i. sl ! k = acc ! k)"
  using assms
proof (induction H bState privs n i acc g rule: attesterSlashings_loop.induct)
  case (1 H bState privs n i acc g)
  show ?case
  proof (cases "i < n")
    case False
    with "1.prems" show ?thesis
      by (auto simp: attesterSlashings_loop.simps [of _ _ _ n i])
  next
    case True
    with "1.prems" obtain a g1 where
      b: "attesterSlashing H bState privs i g = Inr (a, g1)" and
      r: "attesterSlashings_loop H bState privs n (i + 1) (acc[unat i := Some a]) g1 = Inr (sl, g')"
      by (auto simp: attesterSlashings_loop.simps [of _ _ _ n i] split: sum.splits prod.splits)
    have ok: "doubleVotePair H bState i a"
      using b by (rule attesterSlashing_pair)
    have ih: "length sl = length (acc[unat i := Some a]) \<and>
         (\<forall>k. i + 1 \<le> k \<and> k < n \<and> unat k < length (acc[unat i := Some a]) \<longrightarrow>
               (\<exists>q. sl ! unat k = Some q \<and> doubleVotePair H bState k q)) \<and>
         (\<forall>k < unat (i + 1). sl ! k = acc[unat i := Some a] ! k)"
      using "1.IH" [OF True b refl r] .
    have s: "unat (i + 1) = Suc (unat i)" using True by (rule unat_increment)
    show ?thesis
    proof (intro conjI allI impI)
      show "length sl = length acc" using ih by simp
    next
      fix k assume k: "i \<le> k \<and> k < n \<and> unat k < length acc"
      show "\<exists>q. sl ! unat k = Some q \<and> doubleVotePair H bState k q"
      proof (cases "k = i")
        case True
        then have "sl ! unat k = acc[unat i := Some a] ! unat k" using ih s by simp
        with True k ok show ?thesis by simp
      next
        case False
        with k have "i < k" by (auto simp: order_less_le)
        then have "unat i < unat k" by (simp add: word_less_nat_alt)
        then have "i + 1 \<le> k" using s by (simp add: word_le_nat_alt)
        with ih k show ?thesis by simp
      qed
    next
      fix k assume "k < unat i"
      then show "sl ! k = acc ! k" using ih s by simp
    qed
  qed
qed

lemma doubleVotePair_indexed:
  assumes "doubleVotePair H bState i a" and "keepsData H"
  shows "doubleVoteData i (indexed_Data (Attestation_1 a)) (indexed_Data (Attestation_2 a))"
proof -
  from assms(1) obtain att1 att2 where
    c: "ConvertToIndexed H bState att1 = Inr (Attestation_1 a)"
       "ConvertToIndexed H bState att2 = Inr (Attestation_2 a)" and
    d: "doubleVoteData i (att_Data att1) (att_Data att2)"
    unfolding doubleVotePair_def by blast
  from c assms(2) have "indexed_Data (Attestation_1 a) = att_Data att1"
    and "indexed_Data (Attestation_2 a) = att_Data att2"
    unfolding keepsData_def by blast+
  with d show ?thesis by simp
qed

text \<open>
  Claim C9. The \<open>i\<close>-th attester slashing that generateAttesterSlashings produces
  holds the conversions of two attestations that both have target epoch \<open>i\<close>, the
  first with source epoch \<open>i + 1\<close> and the second with source epoch \<open>i\<close>; the
  first one's source epoch is above its target epoch, since \<open>i + 1\<close> does not wrap
  for \<open>i\<close> below the requested count. Where ConvertToIndexed carries the data over,
  these are the epochs of the slashing's two indexed attestations: the targets agree
  and the sources differ.
\<close>

theorem generateAttesterSlashings_epochs:
  assumes "generateAttesterSlashings H bState privs n g = Inr (sl, g')"
    and "i < n"
  shows "\<exists>a. sl ! unat i = Some a \<and> doubleVotePair H bState i a \<and> i < i + 1 \<and>
           (keepsData H \<longrightarrow>
              targetEpoch (Attestation_1 a) = i \<and> sourceEpoch (Attestation_1 a) = i + 1 \<and>
              targetEpoch (Attestation_2 a) = i \<and> sourceEpoch (Attestation_2 a) = i \<and>
              targetEpoch (Attestation_1 a) = targetEpoch (Attestation_2 a) \<and>
              sourceEpoch (Attestation_1 a) \<noteq> sourceEpoch (Attestation_2 a) \<and>
              targetEpoch (Attestation_1 a) < sourceEpoch (Attestation_1 a))"
proof -
  have l: "attesterSlashings_loop H bState privs n 0 (replicate (unat n) None) g = Inr (sl, g')"
    using assms(1) by (simp add: generateAttesterSlashings_def make_slice_def split: if_splits)
  have "unat i < unat n" using assms(2) by (simp add: word_less_nat_alt)
  with attesterSlashings_loop_result [OF l] assms(2)
  obtain a where a: "sl ! unat i = Some a" "doubleVotePair H bState i a" by auto
  have "unat (i + 1) = Suc (unat i)" using assms(2) by (rule unat_increment)
  then have lt: "i < i + 1" by (simp add: word_less_nat_alt)
  have "keepsData H \<longrightarrow>
          targetEpoch (Attestation_1 a) = i \<and> sourceEpoch (Attestation_1 a) = i + 1 \<and>
          targetEpoch (Attestation_2 a) = i \<and> sourceEpoch (Attestation_2 a) = i \<and>
          targetEpoch (Attestation_1 a) = targetEpoch (Attestation_2 a) \<and>
          sourceEpoch (Attestation_1 a) \<noteq> sourceEpoch (Attestation_2 a) \<and>
          targetEpoch (Attestation_1 a) < sourceEpoch (Attestation_1 a)"
    using doubleVotePair_indexed [OF a(2)] lt
    by (auto simp: doubleVoteData_def sourceEpoch_def targetEpoch_def)
  with a lt show ?thesis by blast
qed

theorem generateAttesterSlashings_epochs_witness:
  "\<exists>sl g' a. generateAttesterSlashings (testHelpers 2) testState [[1], [2]] 2 0 = Inr (sl, g') \<and>
     sl ! unat (1 :: uint64) = Some a \<and>
     targetEpoch (Attestation_1 a) = 1 \<and> sourceEpoch (Attestation_1 a) = 2 \<and>
     targetEpoch (Attestation_2 a) = 1 \<and> sourceEpoch (Attestation_2 a) = 1"
proof -
  have k: "keepsData (testHelpers 2)"
    by (auto simp: keepsData_def testHelpers_def)
  have "\<exists>sl g'. generateAttesterSlashings (testHelpers 2) testState [[1], [2]] 2 0 = Inr (sl, g')"
    by (simp add: generateAttesterSlashings_def make_slice_def attesterSlashings_loop.simps
        attesterSlashing_def
        testHelpers_def testState_def remainder_def must_def index_def Let_def NewBitlist_def
        SetBitAt_def replicate_two)
  then obtain sl g' where
    e: "generateAttesterSlashings (testHelpers 2) testState [[1], [2]] 2 0 = Inr (sl, g')"
    by blast
  have "(1 :: uint64) < 2" by simp
  from generateAttesterSlashings_epochs [OF e this] k e show ?thesis
    by auto
qed

subsection \<open>GenerateAttestations\<close>

text \<open>The quotient of two integers, cut off at 1, is 0 or 1, so the test
  \<^verbatim>\<open>math.Trunc(attsPerCommittee) == attsPerCommittee\<close> always succeeds and the
  function ends the test whenever it gets that far.\<close>

lemma Trunc_min_one: "Trunc (min (real k) 1) = min (real k) 1"
  by (cases k) (simp_all add: Trunc_def min_def)

lemma Trunc_quotient: "Trunc (min (unsigned (q :: uint64)) 1) = min (unsigned q) 1"
  using Trunc_min_one [of "unat q"] by (simp only: of_nat_unat)

lemma GenerateAttestations_aborts:
  "\<exists>a. GenerateAttestations H bState privs conf = Inl a"
  by (auto simp: GenerateAttestations_def make_slice_def next_step_def must_def Let_def
        Trunc_quotient
      split: sum.splits prod.splits)

subsection \<open>GenerateFullBlock\<close>

text \<open>So a call of GenerateFullBlock that asks for attestations does not return; the
  calls that return have \<^verbatim>\<open>MaxAttestations = 0\<close>.\<close>

lemma blockOperations_aborts:
  assumes "0 < MaxAttestations conf"
  shows "\<exists>a. blockOperations H bState privs conf g = Inl a"
proof -
  obtain a where a: "GenerateAttestations H bState privs conf = Inl a"
    using GenerateAttestations_aborts by blast
  show ?thesis
    using assms a
    by (auto simp: blockOperations_def next_step_def split: sum.splits prod.splits)
qed

lemma GenerateFullBlock_aborts:
  assumes "0 < MaxAttestations conf"
  shows "\<exists>a. GenerateFullBlock H bState privs conf slot g = (Inl a, bState)"
proof -
  obtain a where "blockOperations H bState privs conf g = Inl a"
    using blockOperations_aborts [OF assms] by blast
  then show ?thesis
    by (simp add: GenerateFullBlock_def Let_def)
qed

lemma randaoReveal_state:
  assumes "randaoReveal H bState privs conf slot (state_Slot bState) = (Inr reveal, bState')"
  shows "bState' = bState"
  using assms by (auto simp: randaoReveal_def Let_def split: if_splits sum.splits)

lemma signBlock_state:
  assumes "signBlock H bState privs conf slot (state_Slot bState) block = (Inr block', bState')"
  shows "bState' = bState"
  using assms by (auto simp: signBlock_def Let_def index_def split: if_splits sum.splits)

text \<open>
  Claim C10. Whenever GenerateFullBlock returns a block, the state's Slot is what it
  was at entry: each of the two branches taken with signatures sets the slot to the
  requested one and sets it back to the current slot before the function goes on.
\<close>

theorem GenerateFullBlock_restores_Slot:
  assumes "GenerateFullBlock H bState privs conf slot g = (Inr (block, g'), bState')"
  shows "state_Slot bState' = state_Slot bState"
proof -
  from assms obtain reveal s1 b1 where
    r: "randaoReveal H bState privs conf slot (state_Slot bState) = (Inr reveal, s1)" and
    s: "signBlock H s1 privs conf slot (state_Slot bState) b1 = (Inr block, bState')"
    by (auto simp: GenerateFullBlock_def Let_def split: if_splits sum.splits prod.splits)
  from r have "s1 = bState" by (rule randaoReveal_state)
  with s have "bState' = bState" using signBlock_state by metis
  then show ?thesis by simp
qed

theorem GenerateFullBlock_restores_Slot_witness:
  "\<not> isl (fst (GenerateFullBlock (testHelpers 2) testState [[1], [2]] testConfig 5 0)) \<and>
   state_Slot (snd (GenerateFullBlock (testHelpers 2) testState [[1], [2]] testConfig 5 0)) =
     state_Slot testState"
proof -
  have "\<exists>block g'. fst (GenerateFullBlock (testHelpers 2) testState [[1], [2]] testConfig 5 0) =
          Inr (block, g')"
    by (simp add: GenerateFullBlock_def blockOperations_def randaoReveal_def signBlock_def
        generateProposerSlashings_def proposerSlashings_loop.simps proposerSlashing_def
        generateAttesterSlashings_def attesterSlashings_loop.simps attesterSlashing_def
        generateDepositsAndEth1Data_def generateVoluntaryExits_def voluntaryExits_loop.simps
        make_slice_def
        voluntaryExit_def randValIndex_def NewBitlist_def SetBitAt_def
        testHelpers_def testState_def testConfig_def
        next_step_def remainder_def must_def index_def Let_def)
  then obtain block g' where
    e: "GenerateFullBlock (testHelpers 2) testState [[1], [2]] testConfig 5 0 =
          (Inr (block, g'), snd (GenerateFullBlock (testHelpers 2) testState [[1], [2]] testConfig 5 0))"
    by (metis prod.collapse)
  from GenerateFullBlock_restores_Slot [OF e] e show ?thesis
    by (metis fst_conv sum.disc(2))
qed


section \<open>Properties of the detection core\<close>

subsection \<open>The spans decide the surround conditions\<close>





lemma voted_record_vote:
  "voted (record_vote W entry s t) s' t' \<longleftrightarrow>
     retained W (max (latest entry) t) t' \<and> (if t' = t then s' = s else voted entry s' t')"
  by (auto simp: voted_def record_vote_def Let_def prune_def latest_def)











lemma check_and_update_cases:
  "check_and_update W store v s t a =
     (if t < s then (Failed InvalidInput, store)
      else if \<not> retained W (latest (store v)) s then (Failed StaleInput, store)
      else if \<exists>s'. voted (store v) s' t \<and> s' \<noteq> s then (Violation DoubleVote t a, store)
      else if t - s < max_at (store v) s then
        (Violation Surrounded (s + max_at (store v) s) a, store)
      else if min_at (store v) s \<noteq> 0 \<and> min_at (store v) s < t - s then
        (Violation Surrounds (s + min_at (store v) s) a, store)
      else (NoViolation, store(v := record_vote W (store v) s t)))"
  by (auto simp: check_and_update_def Let_def latest_def voted_def max_at_def min_at_def
        unat_eq_0
      split: option.splits)









subsection \<open>Surround votes\<close>





text \<open>A call that reports no violation records its vote, and a call for a source epoch
  outside the window, or for a target recorded with another source, reports no
  surround.\<close>

lemma outside_window:
  "s \<le> t \<Longrightarrow> \<not> retained W (latest (store v)) s \<Longrightarrow>
     check_and_update W store v s t a = (Failed StaleInput, store)"
  by (simp add: check_and_update_cases)

lemma double_vote_first:
  "s \<le> t \<Longrightarrow> retained W (latest (store v)) s \<Longrightarrow> voted (store v) s' t \<Longrightarrow> s' \<noteq> s \<Longrightarrow>
     check_and_update W store v s t a = (Violation DoubleVote t a, store)"
  by (auto simp: check_and_update_cases)


lemma recorded_when_no_violation:
  assumes "check_and_update W store v s t a = (NoViolation, store')" and "0 < W"
  shows "voted (store' v) s t"
proof -
  from assms(1) have g: "s \<le> t" "retained W (latest (store v)) s"
    and e: "store' = store(v := record_vote W (store v) s t)"
    by (auto simp: check_and_update_cases split: if_splits)
  from g assms(2) have "retained W (max (latest (store v)) t) t"
    by (auto simp: retained_def)
  with e show ?thesis by (simp add: voted_record_vote)
qed





subsection \<open>The status of recorded evidence\<close>

lemma valid_transition_edges:
  "valid_transition cur new \<longleftrightarrow>
     (cur, new) \<in> {(Unknown, Active), (Active, Included), (Included, Reverted), (Reverted, Active)}"
  by (cases cur; cases new) simp_all

lemma serve_keeps:
  assumes "i < length tr"
  shows "i < length (serve tr r) \<and> evidence (serve tr r ! i) = evidence (tr ! i)"
proof (cases r)
  case (Record ev)
  with assms show ?thesis
    by (auto simp: record_evidence_def nth_append split: option.splits)
next
  case (Transition j new)
  with assms show ?thesis
    by (auto simp: transition_def nth_list_update)
qed

lemma serve_all_keeps:
  assumes "i < length tr"
  shows "i < length (serve_all tr reqs) \<and> evidence (serve_all tr reqs ! i) = evidence (tr ! i)"
  using assms unfolding serve_all_def
proof (induction reqs arbitrary: tr)
  case Nil
  then show ?case by simp
next
  case (Cons r reqs)
  from serve_keeps [OF Cons.prems, of r]
  have a: "i < length (serve tr r)" and b: "evidence (serve tr r ! i) = evidence (tr ! i)"
    by simp_all
  from Cons.IH [OF a] b show ?case by simp
qed

lemma queryable:
  assumes "i < length tr"
  shows "evidence (tr ! i) \<in> set (query tr (status (tr ! i)))"
  using assms by (auto simp: query_def intro!: image_eqI [where x = "tr ! i"])

text \<open>
  Claim C6. The transitions that are accepted are exactly Unknown to Active, Active to
  Included, Included to Reverted and Reverted to Active. For a stored record an accepted
  request sets the status; every other request fails with InvalidTransition and leaves
  the store, and so the record's status, as it was. A record that is Included or
  Reverted stays in the store with its evidence through every sequence of record and
  transition requests, and a query for its current status returns it.
\<close>

theorem transition_state_machine:
  "(valid_transition cur new \<longleftrightarrow>
      (cur, new) \<in> {(Unknown, Active), (Active, Included), (Included, Reverted),
                     (Reverted, Active)}) \<and>
   (i < length tr \<and> valid_transition (status (tr ! i)) new \<longrightarrow>
      transition tr i new = (Inr (), tr[i := (tr ! i)\<lparr>status := new\<rparr>])) \<and>
   (i < length tr \<and> \<not> valid_transition (status (tr ! i)) new \<longrightarrow>
      transition tr i new = (Inl InvalidTransition, tr)) \<and>
   (i < length tr \<and> (status (tr ! i) = Included \<or> status (tr ! i) = Reverted) \<longrightarrow>
      i < length (serve_all tr reqs) \<and>
      evidence (serve_all tr reqs ! i) = evidence (tr ! i) \<and>
      evidence (tr ! i) \<in> set (query (serve_all tr reqs) (status (serve_all tr reqs ! i))))"
proof (intro conjI impI)
  show "valid_transition cur new \<longleftrightarrow>
      (cur, new) \<in> {(Unknown, Active), (Active, Included), (Included, Reverted),
                     (Reverted, Active)}"
    by (rule valid_transition_edges)
next
  assume "i < length tr \<and> valid_transition (status (tr ! i)) new"
  then show "transition tr i new = (Inr (), tr[i := (tr ! i)\<lparr>status := new\<rparr>])"
    by (simp add: transition_def)
next
  assume "i < length tr \<and> \<not> valid_transition (status (tr ! i)) new"
  then show "transition tr i new = (Inl InvalidTransition, tr)"
    by (simp add: transition_def)
next
  assume a: "i < length tr \<and> (status (tr ! i) = Included \<or> status (tr ! i) = Reverted)"
  then have k: "i < length (serve_all tr reqs)"
    "evidence (serve_all tr reqs ! i) = evidence (tr ! i)"
    using serve_all_keeps [of i tr reqs] by simp_all
  show "i < length (serve_all tr reqs)" by (rule k(1))
  show "evidence (serve_all tr reqs ! i) = evidence (tr ! i)" by (rule k(2))
  show "evidence (tr ! i) \<in> set (query (serve_all tr reqs) (status (serve_all tr reqs ! i)))"
    using queryable [OF k(1)] k(2) by simp
qed

theorem transition_state_machine_witness:
  "valid_transition Active Included \<and>
   transition testTracker 0 Included =
     (Inr (), [\<lparr>evidence = ''a'', status = Included\<rparr>, \<lparr>evidence = ''b'', status = Included\<rparr>]) \<and>
   transition testTracker 0 Reverted = (Inl InvalidTransition, testTracker) \<and>
   transition testTracker 1 Active = (Inl InvalidTransition, testTracker) \<and>
   ''b'' \<in> set (query (serve_all testTracker [Transition 1 Reverted, Record ''c'', Transition 1 Active])
                  Active)"
proof -
  have l: "(0 :: nat) < length testTracker" "(1 :: nat) < length testTracker"
    by (simp_all add: testTracker_def)
  have s: "status (testTracker ! 0) = Active" "status (testTracker ! 1) = Included"
    "evidence (testTracker ! 1) = ''b''"
    by (simp_all add: testTracker_def)
  have r: "status (serve_all testTracker [Transition 1 Reverted, Record ''c'', Transition 1 Active] ! 1)
           = Active"
    by (simp add: serve_all_def testTracker_def transition_def record_evidence_def)
  note t = transition_state_machine
  have "valid_transition Active Included"
    using t [of Active Included 0 "[]" "[]"] by simp
  moreover have "transition testTracker 0 Included =
     (Inr (), [\<lparr>evidence = ''a'', status = Included\<rparr>, \<lparr>evidence = ''b'', status = Included\<rparr>])"
    using t [of Active Included 0 testTracker "[]"] l s by (simp add: testTracker_def)
  moreover have "transition testTracker 0 Reverted = (Inl InvalidTransition, testTracker)"
    using t [of Active Reverted 0 testTracker "[]"] l s by simp
  moreover have "transition testTracker 1 Active = (Inl InvalidTransition, testTracker)"
    using t [of Included Active 1 testTracker "[]"] l s by simp
  moreover have "''b'' \<in> set (query (serve_all testTracker
        [Transition 1 Reverted, Record ''c'', Transition 1 Active]) Active)"
    using t [of Included Active 1 testTracker "[Transition 1 Reverted, Record ''c'', Transition 1 Active]"]
      l s r by simp
  ultimately show ?thesis by blast
qed

end
